theory Spec2Isabelle
  imports Complex_Main "HOL-Library.Char_ord" "HOL-Library.List_Lexorder"
    "HOL-Library.Code_Target_Nat"
begin

section \<open>Values the program works on\<close>

text \<open>
  The coordinator of \<^verbatim>\<open>custom_components/vedur\<close> reads three XML feeds and builds one
  dictionary per refresh. The embedding keeps the shape of \<^verbatim>\<open>coordinator.py\<close> and
  \<^verbatim>\<open>const.py\<close>:
  \<^item> Python \<^verbatim>\<open>float\<close> values are modelled as \<^typ>\<open>real\<close>: exact arithmetic, no NaN, no
    infinities, no rounding error;
  \<^item> Python \<^verbatim>\<open>str\<close> is \<^typ>\<open>string\<close>, with ASCII case mapping and ASCII white space;
  \<^item> \<^verbatim>\<open>None\<close> is \<^term>\<open>None\<close>;
  \<^item> an exception is a value of the error type, on the left of a sum;
  \<^item> functions of the Python standard library whose text is not part of the repository
    (\<^verbatim>\<open>float\<close>, \<^verbatim>\<open>datetime.strptime\<close>, \<^verbatim>\<open>datetime.fromisoformat\<close>,
    \<^verbatim>\<open>ElementTree.fromstring\<close>, the iteration order of a \<^verbatim>\<open>set\<close>) and the network
    are fields of a record that every function takes as its first argument.
\<close>

subsection \<open>Strings\<close>

definition is_space :: "char \<Rightarrow> bool" where
  "is_space c = (c \<in> set [CHR '' '', CHR 0x09, CHR 0x0A, CHR 0x0B, CHR 0x0C, CHR 0x0D])"

definition strip :: "string \<Rightarrow> string" where
  "strip s = rev (dropWhile is_space (rev (dropWhile is_space s)))"

definition lower_char :: "char \<Rightarrow> char" where
  "lower_char c =
     (if CHR ''A'' \<le> c \<and> c \<le> CHR ''Z'' then char_of (of_char c + (32::nat)) else c)"

definition upper_char :: "char \<Rightarrow> char" where
  "upper_char c =
     (if CHR ''a'' \<le> c \<and> c \<le> CHR ''z'' then char_of (of_char c - (32::nat)) else c)"

definition lower :: "string \<Rightarrow> string" where
  "lower s = map lower_char s"

definition upper :: "string \<Rightarrow> string" where
  "upper s = map upper_char s"

text \<open>\<^verbatim>\<open>s.startswith(p)\<close>\<close>

fun startswith :: "string \<Rightarrow> string \<Rightarrow> bool" where
  "startswith s [] = True"
| "startswith [] (p # ps) = False"
| "startswith (c # cs) (p # ps) = (c = p \<and> startswith cs ps)"

text \<open>\<^verbatim>\<open>s.endswith(p)\<close>\<close>

definition endswith :: "string \<Rightarrow> string \<Rightarrow> bool" where
  "endswith s p = startswith (rev s) (rev p)"

text \<open>\<^verbatim>\<open>p in s\<close> for two strings: \<open>p\<close> occurs in \<open>s\<close> as a contiguous block.\<close>

fun contains :: "string \<Rightarrow> string \<Rightarrow> bool" where
  "contains [] p = (p = [])"
| "contains (c # cs) p = (startswith (c # cs) p \<or> contains cs p)"

subsection \<open>Rounding to one decimal\<close>

text \<open>
  \<^verbatim>\<open>round(x, 1)\<close> rounds the exact value of \<open>x\<close> to the nearest multiple of one tenth,
  a tie going to the even neighbour.
\<close>

definition round_half_even :: "real \<Rightarrow> int" where
  "round_half_even x =
     (let f = \<lfloor>x\<rfloor>; r = x - of_int f
      in if r < 1 / 2 then f else if 1 / 2 < r then f + 1 else if even f then f else f + 1)"

definition round1 :: "real \<Rightarrow> real" where
  "round1 x = of_int (round_half_even (x * 10)) / 10"

section \<open>Wind chill\<close>

definition WIND_CHILL_MAX_TEMP :: real where
  "WIND_CHILL_MAX_TEMP = 10"

definition WIND_CHILL_MIN_WIND :: real where
  "WIND_CHILL_MIN_WIND = 4.8"

text \<open>
  \<^verbatim>\<open>_wind_chill\<close>. \<^verbatim>\<open>math.pow(wind_kmh, 0.16)\<close> is only reached with
  \<open>wind_kmh \<ge> 4.8\<close>, where it is \<open>wind_kmh powr 0.16\<close>.
\<close>

definition wind_chill :: "real option \<Rightarrow> real option \<Rightarrow> real option" where
  "wind_chill temp_c wind_mps =
     (case temp_c of None \<Rightarrow> None
      | Some t \<Rightarrow>
        (case wind_mps of None \<Rightarrow> None
         | Some w \<Rightarrow>
           (let wind_kmh = w * 3.6
            in if WIND_CHILL_MAX_TEMP < t \<or> wind_kmh < WIND_CHILL_MIN_WIND then Some t
               else Some (round1
                      (13.12 + 0.6215 * t - 11.37 * (wind_kmh powr 0.16)
                        + 0.3965 * t * (wind_kmh powr 0.16))))))"

section \<open>XML trees\<close>

text \<open>
  An \<^verbatim>\<open>ElementTree.Element\<close>: tag, attributes, text and children. Tags carry their
  namespace in the \<^verbatim>\<open>{uri}name\<close> form, as ElementTree writes them.
\<close>

datatype xml = Element (el_tag: string) (el_attrib: "(string \<times> string) list")
  (el_text: "string option") (el_children: "xml list")

text \<open>\<^verbatim>\<open>elem.findall(tag)\<close> and \<^verbatim>\<open>elem.find(tag)\<close>: the children with that tag.\<close>

definition findall :: "xml \<Rightarrow> string \<Rightarrow> xml list" where
  "findall e t = filter (\<lambda>c. el_tag c = t) (el_children e)"

definition find_child :: "xml \<Rightarrow> string \<Rightarrow> xml option" where
  "find_child e t = List.find (\<lambda>c. el_tag c = t) (el_children e)"

text \<open>The proper descendants of an element in document order.\<close>

fun descendants :: "xml \<Rightarrow> xml list" where
  "descendants (Element t a x cs) = concat (map (\<lambda>c. c # descendants c) cs)"

text \<open>\<^verbatim>\<open>elem.findall(".//tag")\<close> and \<^verbatim>\<open>elem.find(".//tag")\<close>\<close>

definition findall_desc :: "xml \<Rightarrow> string \<Rightarrow> xml list" where
  "findall_desc e t = filter (\<lambda>c. el_tag c = t) (descendants e)"

definition find_desc :: "xml \<Rightarrow> string \<Rightarrow> xml option" where
  "find_desc e t = List.find (\<lambda>c. el_tag c = t) (descendants e)"

text \<open>\<^verbatim>\<open>elem.get(key, "")\<close> on the attributes.\<close>

definition get_attr :: "xml \<Rightarrow> string \<Rightarrow> string" where
  "get_attr e k = (case map_of (el_attrib e) k of None \<Rightarrow> [] | Some v \<Rightarrow> v)"

text \<open>
  The truth value of an element is that of its length: an element without children is
  false. \<^verbatim>\<open>a or b\<close> on two results of \<^verbatim>\<open>find\<close> is \<open>b\<close> when \<open>a\<close> is \<^verbatim>\<open>None\<close> or
  an element without children.
\<close>

definition elem_truthy :: "xml \<Rightarrow> bool" where
  "elem_truthy e = (el_children e \<noteq> [])"

definition or_elem :: "xml option \<Rightarrow> xml option \<Rightarrow> xml option" where
  "or_elem a b = (case a of None \<Rightarrow> b | Some e \<Rightarrow> if elem_truthy e then Some e else b)"

text \<open>\<^verbatim>\<open>a or b\<close> on two lists\<close>

definition or_list :: "'a list \<Rightarrow> 'a list \<Rightarrow> 'a list" where
  "or_list a b = (if a \<noteq> [] then a else b)"

section \<open>The library and the network\<close>

record datetime =
  year :: nat
  month :: nat
  day :: nat
  hour :: nat
  minute :: nat
  second :: nat

datatype http_result = Raises | Response (status: nat) (body: string)

record env =
  py_float :: "string \<Rightarrow> real option"
    \<comment> \<open>\<^verbatim>\<open>float(s)\<close>, \<^term>\<open>None\<close> for \<^verbatim>\<open>ValueError\<close>\<close>
  strptime :: "string \<Rightarrow> datetime option"
    \<comment> \<open>\<^verbatim>\<open>datetime.strptime(s, "%Y-%m-%d %H:%M:%S")\<close>, \<^term>\<open>None\<close> for \<^verbatim>\<open>ValueError\<close>\<close>
  fromisoformat :: "string \<Rightarrow> datetime option"
    \<comment> \<open>\<^verbatim>\<open>datetime.fromisoformat(s)\<close>, \<^term>\<open>None\<close> for \<^verbatim>\<open>ValueError\<close>\<close>
  set_iter :: "string list \<Rightarrow> string list"
    \<comment> \<open>the order in which \<^verbatim>\<open>set(xs)\<close> is iterated\<close>
  fromstring :: "string \<Rightarrow> xml option"
    \<comment> \<open>\<^verbatim>\<open>ElementTree.fromstring(s)\<close>, \<^term>\<open>None\<close> for \<^verbatim>\<open>ParseError\<close>\<close>
  http_get :: "string \<Rightarrow> http_result"
    \<comment> \<open>\<^verbatim>\<open>session.get(url)\<close> with the reading of the body; \<^term>\<open>Raises\<close> for any
       exception, the deadline of a single alert included\<close>
  phase1_timeout :: bool
    \<comment> \<open>the 20 s deadline of phase 1 expires\<close>
  phase2_timeout :: bool
    \<comment> \<open>the 20 s deadline of phase 2 expires\<close>

subsection \<open>Rendering dates\<close>

definition digit :: "nat \<Rightarrow> char" where
  "digit n = char_of (48 + n mod 10)"

definition pad2 :: "nat \<Rightarrow> string" where
  "pad2 n = [digit (n div 10), digit n]"

definition pad4 :: "nat \<Rightarrow> string" where
  "pad4 n = [digit (n div 1000), digit (n div 100), digit (n div 10), digit n]"

text \<open>\<^verbatim>\<open>dt.date().isoformat()\<close>\<close>

definition date_isoformat :: "datetime \<Rightarrow> string" where
  "date_isoformat dt = pad4 (year dt) @ ''-'' @ pad2 (month dt) @ ''-'' @ pad2 (day dt)"

text \<open>
  \<^verbatim>\<open>dt.replace(tzinfo=timezone.utc).isoformat()\<close> for a value of \<^verbatim>\<open>strptime\<close>, which
  has no microseconds.
\<close>

definition isoformat_utc :: "datetime \<Rightarrow> string" where
  "isoformat_utc dt =
     date_isoformat dt @ ''T'' @ pad2 (hour dt) @ '':'' @ pad2 (minute dt) @ '':''
       @ pad2 (second dt) @ ''+00:00''"

section \<open>Constants of the integration\<close>

definition FORECAST_URL :: "string \<Rightarrow> string" where
  "FORECAST_URL sid =
     ''https://xmlweather.vedur.is/?op_w=xml&type=forec&lang=en&view=xml&ids='' @ sid"

definition OBSERVATION_URL :: "string \<Rightarrow> string" where
  "OBSERVATION_URL sid =
     ''https://xmlweather.vedur.is/?op_w=xml&type=obs&lang=en&view=xml&ids='' @ sid"

definition ALERTS_URL :: string where
  "ALERTS_URL = ''https://api.vedur.is/cap/v1/capbroker/active/feed/met''"

definition WIND_DIRECTION_MAP :: "(string \<times> real) list" where
  "WIND_DIRECTION_MAP =
     [(''N'', 0), (''NNA'', 22.5), (''NA'', 45), (''ANA'', 67.5),
      (''A'', 90), (''ASA'', 112.5), (''SA'', 135), (''SSA'', 157.5),
      (''S'', 180), (''SSV'', 202.5), (''SV'', 225), (''VSV'', 247.5),
      (''V'', 270), (''VNV'', 292.5), (''NV'', 315), (''NNV'', 337.5),
      (''NNE'', 22.5), (''NE'', 45), (''ENE'', 67.5), (''E'', 90),
      (''ESE'', 112.5), (''SE'', 135), (''SSE'', 157.5), (''SSW'', 202.5),
      (''SW'', 225), (''WSW'', 247.5), (''W'', 270), (''WNW'', 292.5), (''NW'', 315)]"

definition CONDITION_MAP :: "(string \<times> string) list" where
  "CONDITION_MAP =
     [(''clear sky'', ''sunny''),
      (''partly cloudy'', ''partlycloudy''),
      (''cloudy'', ''cloudy''),
      (''overcast'', ''cloudy''),
      (''light rain'', ''rainy''),
      (''rain'', ''rainy''),
      (''rain showers'', ''rainy''),
      (''drizzle'', ''rainy''),
      (''light drizzle'', ''rainy''),
      (''snow'', ''snowy''),
      (''light snow'', ''snowy''),
      (''snow showers'', ''snowy''),
      (''sleet'', ''snowy-rainy''),
      (''light sleet'', ''snowy-rainy''),
      (''fog'', ''fog''),
      (''mist'', ''fog''),
      (''thunder'', ''lightning''),
      (''thunderstorm'', ''lightning-rainy'')]"

definition SEVERITY_MAP :: "(string \<times> string) list" where
  "SEVERITY_MAP =
     [(''extreme'', ''red''),
      (''severe'', ''orange''),
      (''moderate'', ''yellow''),
      (''minor'', ''yellow''),
      (''unknown'', ''unknown'')]"



section \<open>Errors\<close>

text \<open>
  \<^verbatim>\<open>UpdateFailed\<close> carries the fixed part of the message the source gives it; every other
  exception is \<open>OtherException\<close>.
\<close>

datatype error = UpdateFailed string | OtherException

section \<open>XML helpers of the coordinator\<close>

text \<open>\<^verbatim>\<open>child.text.strip() if child is not None and child.text else None\<close>\<close>

definition stripped_text :: "xml option \<Rightarrow> string option" where
  "stripped_text child =
     (case child of None \<Rightarrow> None
      | Some c \<Rightarrow>
        (case el_text c of None \<Rightarrow> None
         | Some t \<Rightarrow> if t \<noteq> [] then Some (strip t) else None))"

text \<open>\<^verbatim>\<open>_text\<close>\<close>

definition text_of :: "xml \<Rightarrow> string \<Rightarrow> string option" where
  "text_of element t = stripped_text (find_child element t)"

text \<open>\<^verbatim>\<open>_float\<close>\<close>

definition float_of :: "env \<Rightarrow> xml \<Rightarrow> string \<Rightarrow> real option" where
  "float_of L element t =
     (case find_child element t of None \<Rightarrow> None
      | Some c \<Rightarrow>
        (case el_text c of None \<Rightarrow> None
         | Some x \<Rightarrow> if x \<noteq> [] then py_float L (strip x) else None))"

text \<open>The truth value of a \<^verbatim>\<open>str | None\<close>\<close>

definition truthy :: "string option \<Rightarrow> bool" where
  "truthy v = (case v of None \<Rightarrow> False | Some s \<Rightarrow> s \<noteq> [])"

text \<open>\<^verbatim>\<open>_wind_bearing\<close>\<close>

definition wind_bearing_of :: "xml \<Rightarrow> real option" where
  "wind_bearing_of element =
     (case text_of element ''D'' of None \<Rightarrow> None
      | Some direction \<Rightarrow>
          if direction \<noteq> [] then map_of WIND_DIRECTION_MAP (upper direction) else None)"

text \<open>\<^verbatim>\<open>_map_condition\<close>: the first key of the table, in its order, that occurs in the text.\<close>

fun first_condition :: "(string \<times> string) list \<Rightarrow> string \<Rightarrow> string" where
  "first_condition [] l = ''cloudy''"
| "first_condition ((k, v) # kvs) l = (if contains l k then v else first_condition kvs l)"

definition map_condition :: "string option \<Rightarrow> string" where
  "map_condition txt =
     (case txt of None \<Rightarrow> ''cloudy''
      | Some s \<Rightarrow> if s = [] then ''cloudy'' else first_condition CONDITION_MAP (lower s))"

section \<open>Forecast parsing\<close>

text \<open>
  The dictionaries of the source have fixed keys and are records here. A field of type
  \<open>option\<close> marked optional stands for a key that the source only sets to a value that is
  not \<^verbatim>\<open>None\<close>: \<^term>\<open>None\<close> there means that the key is absent.
\<close>

record hourly =
  h_datetime :: string
  h_temperature :: "real option"
  h_condition :: string
  h_wind_speed :: "real option"
  h_wind_bearing :: "real option"
  h_apparent_temperature :: "real option"
  h_wind_gust :: "real option" \<comment> \<open>optional\<close>
  h_precipitation :: "real option" \<comment> \<open>optional\<close>
  h_cloud_coverage :: "real option" \<comment> \<open>optional\<close>
  h_humidity :: "real option" \<comment> \<open>optional\<close>

record daily =
  d_datetime :: string
  d_temperature :: "real option"
  d_templow :: "real option"
  d_condition :: "string option"
  d_wind_speed :: "real option" \<comment> \<open>optional\<close>
  d_wind_gust :: "real option" \<comment> \<open>optional\<close>
  d_precipitation :: "real option" \<comment> \<open>optional\<close>

text \<open>An alert is a dictionary from strings to \<^verbatim>\<open>str | None\<close>, in insertion order.\<close>

type_synonym alert = "(string \<times> string option) list"

record weather_data =
  station_name :: string
  station_id :: string
  temperature :: "real option"
  wind_speed :: "real option"
  wind_gust :: "real option"
  wind_direction :: "string option"
  wind_bearing :: "real option"
  condition_text :: "string option"
  condition :: string
  forecast_time :: "string option"
  precipitation :: "real option"
  cloud_cover :: "real option"
  dew_point :: "real option"
  humidity :: "real option"
  pressure :: "real option"
  visibility :: "real option"
  feels_like :: "real option"
  alerts :: "alert list"
  forecast_hourly :: "hourly list"
  forecast_daily :: "daily list"
  observation_time :: "string option" \<comment> \<open>optional\<close>

text \<open>The coordinator object: its configuration and \<^verbatim>\<open>self.data\<close>, the last snapshot.\<close>

record coordinator =
  co_station_id :: string
  co_station_name :: string
  co_alert_language :: string
  co_data :: "weather_data option"

text \<open>
  The body of the loop of \<^verbatim>\<open>_parse_hourly\<close>: \<^term>\<open>None\<close> is \<^verbatim>\<open>continue\<close>, a value is
  the entry appended.
\<close>

definition hourly_entry :: "env \<Rightarrow> xml \<Rightarrow> hourly option" where
  "hourly_entry L fc =
     (let ftime = text_of fc ''ftime''
      in if \<not> truthy ftime then None
         else (case strptime L (the ftime) of None \<Rightarrow> None
               | Some dt \<Rightarrow>
                 (let temp = float_of L fc ''T''; wind = float_of L fc ''F''
                  in Some \<lparr> h_datetime = isoformat_utc dt,
                            h_temperature = temp,
                            h_condition = map_condition (text_of fc ''W''),
                            h_wind_speed = wind,
                            h_wind_bearing = wind_bearing_of fc,
                            h_apparent_temperature = wind_chill temp wind,
                            h_wind_gust = float_of L fc ''FG'',
                            h_precipitation = float_of L fc ''R'',
                            h_cloud_coverage = float_of L fc ''N'',
                            h_humidity = float_of L fc ''RH'' \<rparr>)))"

text \<open>\<^verbatim>\<open>_parse_hourly\<close>\<close>

fun parse_hourly :: "env \<Rightarrow> xml list \<Rightarrow> hourly list" where
  "parse_hourly L [] = []"
| "parse_hourly L (fc # fcs) =
     (case hourly_entry L fc of None \<Rightarrow> parse_hourly L fcs
      | Some entry \<Rightarrow> entry # parse_hourly L fcs)"

section \<open>Daily aggregation\<close>

text \<open>\<^verbatim>\<open>by_date[k].append(v)\<close> on a \<^verbatim>\<open>defaultdict(list)\<close> kept in insertion order.\<close>

fun dd_append :: "('k \<times> 'v list) list \<Rightarrow> 'k \<Rightarrow> 'v \<Rightarrow> ('k \<times> 'v list) list" where
  "dd_append [] k v = [(k, [v])]"
| "dd_append ((k', vs) # kvs) k v =
     (if k' = k then (k', vs @ [v]) # kvs else (k', vs) # dd_append kvs k v)"

text \<open>The first loop of \<^verbatim>\<open>_aggregate_daily\<close>.\<close>

fun group_by_date ::
  "env \<Rightarrow> hourly list \<Rightarrow> (string \<times> hourly list) list \<Rightarrow> (string \<times> hourly list) list" where
  "group_by_date L [] by_date = by_date"
| "group_by_date L (entry # es) by_date =
     (case fromisoformat L (h_datetime entry) of None \<Rightarrow> group_by_date L es by_date
      | Some dt \<Rightarrow> group_by_date L es (dd_append by_date (date_isoformat dt) entry))"

text \<open>
  \<^verbatim>\<open>max(xs, key=f)\<close> and \<^verbatim>\<open>min(xs)\<close> on a list with first element \<open>x\<close>: the first
  element whose key is greatest (least).
\<close>

definition max_key :: "('a \<Rightarrow> 'b::linorder) \<Rightarrow> 'a \<Rightarrow> 'a list \<Rightarrow> 'a" where
  "max_key f x xs = foldl (\<lambda>best y. if f best < f y then y else best) x xs"

definition min_key :: "('a \<Rightarrow> 'b::linorder) \<Rightarrow> 'a \<Rightarrow> 'a list \<Rightarrow> 'a" where
  "min_key f x xs = foldl (\<lambda>best y. if f y < f best then y else best) x xs"

text \<open>
  \<^verbatim>\<open>max(set(conditions), key=conditions.count) if conditions else None\<close>. The set of a list
  that is not empty is not empty; an iteration order that is empty there gives \<^term>\<open>None\<close>.
\<close>

definition modal_condition :: "env \<Rightarrow> string list \<Rightarrow> string option" where
  "modal_condition L conditions =
     (if conditions = [] then None
      else (case set_iter L conditions of [] \<Rightarrow> None
            | c # cs \<Rightarrow> Some (max_key (count_list conditions) c cs)))"

text \<open>The body of the second loop of \<^verbatim>\<open>_aggregate_daily\<close>.\<close>

definition daily_entry :: "env \<Rightarrow> string \<Rightarrow> hourly list \<Rightarrow> daily" where
  "daily_entry L date_str entries =
     (let temps = List.map_filter h_temperature entries;
          winds = List.map_filter h_wind_speed entries;
          gusts = List.map_filter h_wind_gust entries;
          precips = List.map_filter h_precipitation entries;
          conditions = filter (\<lambda>c. c \<noteq> []) (map h_condition entries)
      in \<lparr> d_datetime = date_str @ ''T00:00:00+00:00'',
           d_temperature = (case temps of [] \<Rightarrow> None | t # ts \<Rightarrow> Some (max_key id t ts)),
           d_templow = (case temps of [] \<Rightarrow> None | t # ts \<Rightarrow> Some (min_key id t ts)),
           d_condition = modal_condition L conditions,
           d_wind_speed =
             (if winds \<noteq> [] then Some (round1 (sum_list winds / real (length winds)))
              else None),
           d_wind_gust = (case gusts of [] \<Rightarrow> None | g # gs \<Rightarrow> Some (max_key id g gs)),
           d_precipitation =
             (if precips \<noteq> [] then Some (round1 (sum_list precips)) else None) \<rparr>)"

text \<open>\<^verbatim>\<open>by_date[date_str]\<close> for a key of the dictionary.\<close>

definition dd_get :: "('k \<times> 'v list) list \<Rightarrow> 'k \<Rightarrow> 'v list" where
  "dd_get by_date k = (case map_of by_date k of None \<Rightarrow> [] | Some vs \<Rightarrow> vs)"

text \<open>\<^verbatim>\<open>_aggregate_daily\<close>\<close>

definition aggregate_daily :: "env \<Rightarrow> hourly list \<Rightarrow> daily list" where
  "aggregate_daily L hs =
     (if hs = [] then []
      else (let by_date = group_by_date L hs []
            in map (\<lambda>date_str. daily_entry L date_str (dd_get by_date date_str))
                 (sort (map fst by_date))))"

text \<open>\<^verbatim>\<open>_parse_forecast\<close>\<close>

definition parse_forecast :: "env \<Rightarrow> coordinator \<Rightarrow> string \<Rightarrow> error + weather_data" where
  "parse_forecast L self xml_text =
     (case fromstring L xml_text of None \<Rightarrow> Inl (UpdateFailed ''Failed to parse XML'')
      | Some xroot \<Rightarrow>
        (case find_desc xroot ''station'' of
           None \<Rightarrow> Inl (UpdateFailed ''No station data found in response'')
         | Some station \<Rightarrow>
           (case findall_desc station ''forecast'' of
              [] \<Rightarrow> Inl (UpdateFailed ''No forecast data found'')
            | current # rest \<Rightarrow>
              (let temp = float_of L current ''T'';
                   wind = float_of L current ''F'';
                   hs = parse_hourly L (current # rest)
               in Inr \<lparr> station_name = co_station_name self,
                        station_id = co_station_id self,
                        temperature = temp,
                        wind_speed = wind,
                        wind_gust = float_of L current ''FG'',
                        wind_direction = text_of current ''D'',
                        wind_bearing = wind_bearing_of current,
                        condition_text = text_of current ''W'',
                        condition = map_condition (text_of current ''W''),
                        forecast_time = text_of current ''ftime'',
                        precipitation = float_of L current ''R'',
                        cloud_cover = float_of L current ''N'',
                        dew_point = float_of L current ''TD'',
                        humidity = float_of L current ''RH'',
                        pressure = float_of L current ''P'',
                        visibility = float_of L current ''V'',
                        feels_like = wind_chill temp wind,
                        alerts = [],
                        forecast_hourly = hs,
                        forecast_daily = aggregate_daily L hs,
                        observation_time = None \<rparr>))))"


section \<open>Observation overlay\<close>

text \<open>
  \<^verbatim>\<open>obs_map\<close>: each key of the data dictionary, as the assignment \<^verbatim>\<open>data[key] = val\<close>,
  with the tag it is read from, in the order of the dictionary.
\<close>

definition obs_map :: "((real \<Rightarrow> weather_data \<Rightarrow> weather_data) \<times> string) list" where
  "obs_map =
     [(\<lambda>val data. data\<lparr>temperature := Some val\<rparr>, ''T''),
      (\<lambda>val data. data\<lparr>wind_speed := Some val\<rparr>, ''F''),
      (\<lambda>val data. data\<lparr>wind_gust := Some val\<rparr>, ''FG''),
      (\<lambda>val data. data\<lparr>humidity := Some val\<rparr>, ''RH''),
      (\<lambda>val data. data\<lparr>pressure := Some val\<rparr>, ''P''),
      (\<lambda>val data. data\<lparr>dew_point := Some val\<rparr>, ''TD''),
      (\<lambda>val data. data\<lparr>precipitation := Some val\<rparr>, ''R''),
      (\<lambda>val data. data\<lparr>cloud_cover := Some val\<rparr>, ''N''),
      (\<lambda>val data. data\<lparr>visibility := Some val\<rparr>, ''V'')]"

definition overlay_numeric ::
  "env \<Rightarrow> xml \<Rightarrow> weather_data \<Rightarrow> (real \<Rightarrow> weather_data \<Rightarrow> weather_data) \<times> string
     \<Rightarrow> weather_data" where
  "overlay_numeric L station data kt =
     (case float_of L station (snd kt) of None \<Rightarrow> data | Some val \<Rightarrow> (fst kt) val data)"

definition overlay_direction :: "xml \<Rightarrow> weather_data \<Rightarrow> weather_data" where
  "overlay_direction station data =
     (let obs_dir = text_of station ''D''
      in if truthy obs_dir then
           (let data1 = data\<lparr>wind_direction := obs_dir\<rparr>
            in (case map_of WIND_DIRECTION_MAP (upper (the obs_dir)) of None \<Rightarrow> data1
                | Some bearing \<Rightarrow> data1\<lparr>wind_bearing := Some bearing\<rparr>))
         else data)"

definition overlay_weather :: "xml \<Rightarrow> weather_data \<Rightarrow> weather_data" where
  "overlay_weather station data =
     (let obs_weather = text_of station ''W''
      in if truthy obs_weather then
           data\<lparr>condition_text := obs_weather, condition := map_condition obs_weather\<rparr>
         else data)"

definition overlay_time :: "xml \<Rightarrow> weather_data \<Rightarrow> weather_data" where
  "overlay_time station data =
     (let obs_time = text_of station ''time''
      in if truthy obs_time then data\<lparr>observation_time := obs_time\<rparr> else data)"

text \<open>\<^verbatim>\<open>_apply_observations\<close>, returning the dictionary it mutates.\<close>

definition apply_observations :: "env \<Rightarrow> weather_data \<Rightarrow> string \<Rightarrow> weather_data" where
  "apply_observations L data xml_text =
     (case fromstring L xml_text of None \<Rightarrow> data
      | Some xroot \<Rightarrow>
        (case find_desc xroot ''station'' of None \<Rightarrow> data
         | Some station \<Rightarrow>
           (let data1 = foldl (overlay_numeric L station) data obs_map;
                data2 = overlay_direction station data1;
                data3 = overlay_weather station data2;
                data4 = data3\<lparr>feels_like := wind_chill (temperature data3) (wind_speed data3)\<rparr>
            in overlay_time station data4)))"

section \<open>Alerts\<close>

definition atom_ns :: string where
  "atom_ns = ''{http://www.w3.org/2005/Atom}''"

definition cap_ns :: string where
  "cap_ns = ''{urn:oasis:names:tc:emergency:cap:1.2}''"

text \<open>
  The loop of \<^verbatim>\<open>_extract_link\<close>: \<open>Inl href\<close> is the \<^verbatim>\<open>return href\<close> inside the loop,
  \<open>Inr fallback\<close> the state when the loop ends.
\<close>

fun link_loop :: "xml list \<Rightarrow> string option \<Rightarrow> string + string option" where
  "link_loop [] fallback = Inr fallback"
| "link_loop (elem # elems) fallback =
     (let href = get_attr elem ''href''
      in if href \<noteq> [] \<and> (contains (get_attr elem ''type'') ''xml'' \<or> endswith href ''/xml/'')
         then Inl href
         else if href \<noteq> [] \<and> fallback = None then link_loop elems (Some href)
         else link_loop elems fallback)"

text \<open>\<^verbatim>\<open>_extract_link\<close>\<close>

definition extract_link :: "xml \<Rightarrow> string \<Rightarrow> string option" where
  "extract_link entry ns =
     (let link_elems = or_list (findall entry (ns @ ''link'')) (findall entry ''link'')
      in (case link_loop link_elems None of Inl href \<Rightarrow> Some href
          | Inr fallback \<Rightarrow>
              if fallback = None then
                (case find_child entry ''link'' of None \<Rightarrow> None
                 | Some link_elem \<Rightarrow>
                   (case el_text link_elem of None \<Rightarrow> None
                    | Some t \<Rightarrow> if t \<noteq> [] then Some (strip t) else None))
              else fallback))"

text \<open>\<^verbatim>\<open>_parse_alert_feed\<close>\<close>

definition parse_alert_feed :: "env \<Rightarrow> string \<Rightarrow> string list" where
  "parse_alert_feed L content =
     (case fromstring L content of None \<Rightarrow> []
      | Some xroot \<Rightarrow>
        (let entries =
               or_list (findall_desc xroot (atom_ns @ ''entry''))
                 (or_list (findall_desc xroot ''entry'') (findall_desc xroot ''item''))
         in map the (filter truthy (map (\<lambda>entry. extract_link entry atom_ns) entries))))"

text \<open>The loop of \<^verbatim>\<open>_select_info_block\<close>.\<close>

fun select_loop :: "string \<Rightarrow> string \<Rightarrow> xml list \<Rightarrow> xml option \<Rightarrow> xml option" where
  "select_loop language ns [] fallback = fallback"
| "select_loop language ns (info # infos) fallback =
     (let lang_elem = or_elem (find_child info (ns @ ''language'')) (find_child info ''language'');
          lang = (case lang_elem of None \<Rightarrow> []
                  | Some le \<Rightarrow>
                    (case el_text le of None \<Rightarrow> []
                     | Some t \<Rightarrow> if t \<noteq> [] then lower (strip t) else []))
      in if startswith lang language then Some info
         else select_loop language ns infos (if fallback = None then Some info else fallback))"

text \<open>\<^verbatim>\<open>_select_info_block\<close>\<close>

definition select_info_block :: "coordinator \<Rightarrow> xml list \<Rightarrow> string \<Rightarrow> xml option" where
  "select_info_block self info_blocks ns =
     select_loop (co_alert_language self) ns info_blocks None"

text \<open>The local function \<^verbatim>\<open>txt\<close> of \<^verbatim>\<open>_parse_cap_xml\<close>.\<close>

definition cap_txt :: "xml \<Rightarrow> string \<Rightarrow> string option" where
  "cap_txt parent t =
     stripped_text (or_elem (find_child parent (cap_ns @ t)) (find_child parent t))"

text \<open>\<^verbatim>\<open>SEVERITY_MAP.get(raw_severity, "unknown")\<close>\<close>

definition severity_color_of :: "string \<Rightarrow> string" where
  "severity_color_of raw_severity =
     (case map_of SEVERITY_MAP raw_severity of None \<Rightarrow> ''unknown'' | Some c \<Rightarrow> c)"

text \<open>\<^verbatim>\<open>(txt(info, "severity") or "").lower()\<close>\<close>

definition raw_severity_of :: "string option \<Rightarrow> string" where
  "raw_severity_of sev = lower (if truthy sev then the sev else [])"

text \<open>\<^verbatim>\<open>_parse_cap_xml\<close>\<close>

definition parse_cap_xml :: "env \<Rightarrow> coordinator \<Rightarrow> string \<Rightarrow> string \<Rightarrow> alert option" where
  "parse_cap_xml L self content source_url =
     (case fromstring L content of None \<Rightarrow> None
      | Some xroot \<Rightarrow>
        (let alert_elem =
               (if el_tag xroot \<noteq> cap_ns @ ''alert'' \<and> el_tag xroot \<noteq> ''alert''
                then or_elem (find_desc xroot (cap_ns @ ''alert'')) (find_desc xroot ''alert'')
                else Some xroot)
         in (case alert_elem of None \<Rightarrow> None
             | Some ae \<Rightarrow>
               (let info_blocks = or_list (findall ae (cap_ns @ ''info'')) (findall ae ''info'')
                in if info_blocks = [] then None
                   else (case select_info_block self info_blocks cap_ns of None \<Rightarrow> None
                         | Some info \<Rightarrow>
                           (let raw_severity = raw_severity_of (cap_txt info ''severity'');
                                alert0 =
                                  [(''event'', cap_txt info ''event''),
                                   (''severity'', cap_txt info ''severity''),
                                   (''severity_color'', Some (severity_color_of raw_severity)),
                                   (''onset'', cap_txt info ''onset''),
                                   (''expires'', cap_txt info ''expires''),
                                   (''headline'', cap_txt info ''headline''),
                                   (''description'', cap_txt info ''description''),
                                   (''urgency'', cap_txt info ''urgency''),
                                   (''certainty'', cap_txt info ''certainty''),
                                   (''link'', Some source_url)];
                                area_elem =
                                  or_elem (find_child info (cap_ns @ ''area''))
                                    (find_child info ''area'');
                                alert1 =
                                  (case area_elem of None \<Rightarrow> alert0
                                   | Some a \<Rightarrow> alert0 @ [(''areaDesc'', cap_txt a ''areaDesc'')]);
                                ident =
                                  or_elem (find_child ae (cap_ns @ ''identifier''))
                                    (find_child ae ''identifier'')
                            in Some (case stripped_text ident of None \<Rightarrow> alert1
                                     | Some i \<Rightarrow> alert1 @ [(''identifier'', Some i)])))))))"

text \<open>\<^verbatim>\<open>_fetch_cap_alert\<close>\<close>

definition fetch_cap_alert :: "env \<Rightarrow> coordinator \<Rightarrow> string \<Rightarrow> error + alert option" where
  "fetch_cap_alert L self url =
     (case http_get L url of Raises \<Rightarrow> Inl OtherException
      | Response st content \<Rightarrow>
          if st \<noteq> 200 then Inr None else Inr (parse_cap_xml L self content url))"

text \<open>The loop of \<^verbatim>\<open>_fetch_alerts\<close> over the results of \<^verbatim>\<open>asyncio.gather\<close>.\<close>

fun collect_alerts :: "(error + alert option) list \<Rightarrow> alert list" where
  "collect_alerts [] = []"
| "collect_alerts (Inl e # rs) = collect_alerts rs"
| "collect_alerts (Inr None # rs) = collect_alerts rs"
| "collect_alerts (Inr (Some a) # rs) = a # collect_alerts rs"

text \<open>
  \<^verbatim>\<open>_fetch_alerts\<close>. \<^verbatim>\<open>asyncio.gather\<close> gives the results in the order of the tasks.
\<close>

definition fetch_alerts :: "env \<Rightarrow> coordinator \<Rightarrow> error + alert list" where
  "fetch_alerts L self =
     (case http_get L ALERTS_URL of Raises \<Rightarrow> Inl OtherException
      | Response st content \<Rightarrow>
          if st \<noteq> 200 then Inr []
          else (let links = parse_alert_feed L content
                in if links = [] then Inr []
                   else Inr (collect_alerts (map (fetch_cap_alert L self) (take 10 links)))))"

section \<open>The refresh\<close>

text \<open>\<^verbatim>\<open>_fetch_xml\<close>\<close>

definition fetch_xml :: "env \<Rightarrow> string \<Rightarrow> error + string" where
  "fetch_xml L url =
     (case http_get L url of Raises \<Rightarrow> Inl OtherException
      | Response st content \<Rightarrow>
          if st \<noteq> 200 then Inl (UpdateFailed ''API returned'') else Inr content)"

text \<open>\<^verbatim>\<open>_fetch_weather\<close>\<close>

definition fetch_weather :: "env \<Rightarrow> coordinator \<Rightarrow> error + weather_data" where
  "fetch_weather L self =
     (let forecast_xml = fetch_xml L (FORECAST_URL (co_station_id self));
          observation_xml = fetch_xml L (OBSERVATION_URL (co_station_id self))
      in (case forecast_xml of Inl e \<Rightarrow> Inl (UpdateFailed ''Failed to fetch forecast'')
          | Inr fx \<Rightarrow>
            (case parse_forecast L self fx of Inl e \<Rightarrow> Inl e
             | Inr data \<Rightarrow>
               (case observation_xml of Inl e \<Rightarrow> Inr data
                | Inr ox \<Rightarrow> Inr (apply_observations L data ox)))))"

text \<open>\<^verbatim>\<open>self.data.get("alerts", []) if self.data else []\<close>\<close>

definition previous_alerts :: "coordinator \<Rightarrow> alert list" where
  "previous_alerts self = (case co_data self of None \<Rightarrow> [] | Some d \<Rightarrow> alerts d)"

text \<open>\<^verbatim>\<open>_async_update_data\<close>\<close>

definition async_update_data :: "env \<Rightarrow> coordinator \<Rightarrow> error + weather_data" where
  "async_update_data L self =
     (if phase1_timeout L then Inl (UpdateFailed ''Timeout fetching weather data'')
      else (case fetch_weather L self of
              Inl (UpdateFailed m) \<Rightarrow> Inl (UpdateFailed m)
            | Inl OtherException \<Rightarrow> Inl (UpdateFailed ''Error fetching weather data'')
            | Inr data \<Rightarrow>
                if phase2_timeout L then Inr (data\<lparr>alerts := previous_alerts self\<rparr>)
                else (case fetch_alerts L self of
                        Inl e \<Rightarrow> Inr (data\<lparr>alerts := previous_alerts self\<rparr>)
                      | Inr al \<Rightarrow> Inr (data\<lparr>alerts := al\<rparr>))))"

section \<open>Highest severity\<close>






section \<open>Notions used to state the properties\<close>

text \<open>The responses of the two feeds of phase 1.\<close>

definition forecast_response :: "env \<Rightarrow> coordinator \<Rightarrow> http_result" where
  "forecast_response L self = http_get L (FORECAST_URL (co_station_id self))"

definition observation_response :: "env \<Rightarrow> coordinator \<Rightarrow> http_result" where
  "observation_response L self = http_get L (OBSERVATION_URL (co_station_id self))"



text \<open>The fields of a snapshot that are not current conditions.\<close>

definition frame_fields ::
  "weather_data \<Rightarrow> string \<times> string \<times> string option \<times> alert list \<times> hourly list \<times> daily list" where
  "frame_fields d =
     (station_name d, station_id d, forecast_time d, alerts d, forecast_hourly d,
      forecast_daily d)"

text \<open>A value of the observation record, when there is one, replaces the forecast's.\<close>

definition overlaid :: "real option \<Rightarrow> real option \<Rightarrow> real option" where
  "overlaid obs old = (case obs of None \<Rightarrow> old | Some v \<Rightarrow> Some v)"

text \<open>The timestamp of a forecast entry, when its text is there and parses.\<close>

definition usable_ftime :: "env \<Rightarrow> xml \<Rightarrow> datetime option" where
  "usable_ftime L fc =
     (case text_of fc ''ftime'' of None \<Rightarrow> None
      | Some s \<Rightarrow> if s = [] then None else strptime L s)"







section \<open>Example feeds\<close>

text \<open>
  A station with four forecast entries on two dates, the last one with a timestamp that
  does not parse; an observation; an alert index with three links; an alert document with
  bare tags and the same document in the CAP namespace. The library functions of the
  example are tables on the texts that occur.
\<close>

definition leaf :: "string \<Rightarrow> string \<Rightarrow> xml" where
  "leaf t s = Element t [] (Some s) []"

definition node :: "string \<Rightarrow> xml list \<Rightarrow> xml" where
  "node t cs = Element t [] None cs"

definition ex_forecast_body :: string where
  "ex_forecast_body = ''<forecasts><station><forecast><ftime>2024-01-05 03:00:00</ftime><F>4.0</F><T>5</T><W>Light rain</W></forecast><forecast><ftime>2024-01-05 06:00:00</ftime><F>6.0</F><T>9</T><W>Clear sky</W></forecast><forecast><ftime>2024-01-06 00:00:00</ftime><T>-2</T><W>Snow</W></forecast><forecast><ftime>soon</ftime><T>1</T></forecast></station></forecasts>''"

definition ex_forecasts :: "xml list" where
  "ex_forecasts =
     [node ''forecast'' [leaf ''ftime'' ''2024-01-05 03:00:00'', leaf ''F'' ''4.0'',
        leaf ''T'' ''5'', leaf ''W'' ''Light rain''],
      node ''forecast'' [leaf ''ftime'' ''2024-01-05 06:00:00'', leaf ''F'' ''6.0'',
        leaf ''T'' ''9'', leaf ''W'' ''Clear sky''],
      node ''forecast'' [leaf ''ftime'' ''2024-01-06 00:00:00'', leaf ''T'' ''-2'',
        leaf ''W'' ''Snow''],
      node ''forecast'' [leaf ''ftime'' ''soon'', leaf ''T'' ''1'']]"

definition ex_station :: xml where
  "ex_station = node ''station'' ex_forecasts"

definition ex_forecast_tree :: xml where
  "ex_forecast_tree = node ''forecasts'' [ex_station]"

definition ex_obs_body :: string where
  "ex_obs_body = ''<observations><station><time>2024-01-05 02:00:00</time><T>12</T><D>NNA</D></station></observations>''"

definition ex_obs_station :: xml where
  "ex_obs_station =
     node ''station'' [leaf ''time'' ''2024-01-05 02:00:00'', leaf ''T'' ''12'', leaf ''D'' ''NNA'']"

definition ex_obs_tree :: xml where
  "ex_obs_tree = node ''observations'' [ex_obs_station]"

definition ex_feed_body :: string where
  "ex_feed_body = ''<rss><channel><item><link>https://api.vedur.is/cap/1</link></item><item><link>https://api.vedur.is/cap/2</link></item><item><link>https://api.vedur.is/cap/3</link></item></channel></rss>''"

definition ex_feed_tree :: xml where
  "ex_feed_tree =
     node ''rss'' [node ''channel''
       [node ''item'' [leaf ''link'' ''https://api.vedur.is/cap/1''],
        node ''item'' [leaf ''link'' ''https://api.vedur.is/cap/2''],
        node ''item'' [leaf ''link'' ''https://api.vedur.is/cap/3'']]]"

definition ex_info :: "string \<Rightarrow> string \<Rightarrow> string \<Rightarrow> string \<Rightarrow> xml" where
  "ex_info ns lang event sev =
     node (ns @ ''info'')
       [leaf (ns @ ''language'') lang, leaf (ns @ ''event'') event, leaf (ns @ ''severity'') sev]"

definition ex_cap_bare_body :: string where
  "ex_cap_bare_body = ''<alert><identifier>a-1</identifier><info><language>en-US</language><event>Gale warning</event><severity>Moderate</severity></info><info><language>is-IS</language><event>Stormur</event><severity>Severe</severity></info></alert>''"

definition ex_cap_bare_tree :: xml where
  "ex_cap_bare_tree =
     node ''alert''
       [leaf ''identifier'' ''a-1'',
        ex_info [] ''en-US'' ''Gale warning'' ''Moderate'',
        ex_info [] ''is-IS'' ''Stormur'' ''Severe'']"

definition ex_cap_ns_body :: string where
  "ex_cap_ns_body = ''<alert xmlns='urn:oasis:names:tc:emergency:cap:1.2'><identifier>a-3</identifier><info><language>en-US</language><event>Gale warning</event><severity>Moderate</severity></info><info><language>is-IS</language><event>Stormur</event><severity>Severe</severity></info></alert>''"

definition ex_cap_ns_tree :: xml where
  "ex_cap_ns_tree =
     node (cap_ns @ ''alert'')
       [leaf (cap_ns @ ''identifier'') ''a-3'',
        ex_info cap_ns ''en-US'' ''Gale warning'' ''Moderate'',
        ex_info cap_ns ''is-IS'' ''Stormur'' ''Severe'']"

definition ex_float :: "string \<Rightarrow> real option" where
  "ex_float =
     map_of [(''5'', 5), (''9'', 9), (''-2'', - 2), (''1'', 1), (''12'', 12), (''4.0'', 4),
             (''6.0'', 6)]"

definition ex_dt :: "nat \<Rightarrow> nat \<Rightarrow> nat \<Rightarrow> nat \<Rightarrow> datetime" where
  "ex_dt y m d h = \<lparr> year = y, month = m, day = d, hour = h, minute = 0, second = 0 \<rparr>"

definition ex_strptime :: "string \<Rightarrow> datetime option" where
  "ex_strptime =
     map_of [(''2024-01-05 03:00:00'', ex_dt 2024 1 5 3),
             (''2024-01-05 06:00:00'', ex_dt 2024 1 5 6),
             (''2024-01-06 00:00:00'', ex_dt 2024 1 6 0)]"

definition ex_fromisoformat :: "string \<Rightarrow> datetime option" where
  "ex_fromisoformat =
     map_of [(''2024-01-05T03:00:00+00:00'', ex_dt 2024 1 5 3),
             (''2024-01-05T06:00:00+00:00'', ex_dt 2024 1 5 6),
             (''2024-01-06T00:00:00+00:00'', ex_dt 2024 1 6 0)]"

definition ex_fromstring :: "string \<Rightarrow> xml option" where
  "ex_fromstring =
     map_of [(ex_forecast_body, ex_forecast_tree),
             (ex_obs_body, ex_obs_tree),
             (ex_feed_body, ex_feed_tree),
             (ex_cap_bare_body, ex_cap_bare_tree),
             (ex_cap_ns_body, ex_cap_ns_tree)]"

definition ex_http :: "string \<Rightarrow> http_result" where
  "ex_http url =
     (if url = FORECAST_URL ''1'' then Response 200 ex_forecast_body
      else if url = OBSERVATION_URL ''1'' then Response 200 ex_obs_body
      else if url = ALERTS_URL then Response 200 ex_feed_body
      else if url = ''https://api.vedur.is/cap/1'' then Response 200 ex_cap_bare_body
      else if url = ''https://api.vedur.is/cap/3'' then Response 200 ex_cap_ns_body
      else Raises)"

definition ex_env :: env where
  "ex_env =
     \<lparr> py_float = ex_float, strptime = ex_strptime, fromisoformat = ex_fromisoformat,
       set_iter = remdups, fromstring = ex_fromstring, http_get = ex_http,
       phase1_timeout = False, phase2_timeout = False \<rparr>"

text \<open>The same world with one response replaced.\<close>

definition ex_env_with :: "string \<Rightarrow> http_result \<Rightarrow> env" where
  "ex_env_with u r = ex_env\<lparr>http_get := (\<lambda>url. if url = u then r else ex_http url)\<rparr>"

definition ex_old_alert :: alert where
  "ex_old_alert = [(''event'', Some ''Snjokoma''), (''severity_color'', Some ''yellow'')]"

definition ex_old_data :: weather_data where
  "ex_old_data =
     \<lparr> station_name = ''Reykjavik'', station_id = ''1'', temperature = Some 3,
       wind_speed = None, wind_gust = None, wind_direction = None, wind_bearing = None,
       condition_text = None, condition = ''cloudy'', forecast_time = None,
       precipitation = None, cloud_cover = None, dew_point = None, humidity = None,
       pressure = None, visibility = None, feels_like = None, alerts = [ex_old_alert],
       forecast_hourly = [], forecast_daily = [], observation_time = None \<rparr>"

definition ex_self :: coordinator where
  "ex_self =
     \<lparr> co_station_id = ''1'', co_station_name = ''Reykjavik'', co_alert_language = ''is'',
       co_data = Some ex_old_data \<rparr>"




definition ex_env_index_404 :: env where
  "ex_env_index_404 = ex_env_with ALERTS_URL (Response 404 [])"

definition ex_env_index_down :: env where
  "ex_env_index_down = ex_env_with ALERTS_URL Raises"

definition ex_env_no_forecast :: env where
  "ex_env_no_forecast = ex_env_with (FORECAST_URL ''1'') Raises"

definition ex_env_no_obs :: env where
  "ex_env_no_obs = ex_env_with (OBSERVATION_URL ''1'') (Response 503 [])"



section \<open>Wind chill: the domain and the formula\<close>



section \<open>Auxiliary facts\<close>







lemma parse_alert_feed_malformed:
  "fromstring L content = None \<Longrightarrow> parse_alert_feed L content = []"
  by (simp add: parse_alert_feed_def)

lemma inr_projr: "\<not> isl x \<Longrightarrow> x = Inr (projr x)"
  by (cases x) simp_all

lemma refresh_alerts_cases:
  assumes "\<not> phase1_timeout L" and "fetch_weather L self = Inr data"
  shows "(phase2_timeout L \<or> http_get L ALERTS_URL = Raises \<longrightarrow>
            async_update_data L self = Inr (data\<lparr>alerts := previous_alerts self\<rparr>))
       \<and> (\<not> phase2_timeout L \<and> http_get L ALERTS_URL = Response st content
            \<and> (st \<noteq> 200 \<or> fromstring L content = None \<or> parse_alert_feed L content = []) \<longrightarrow>
            async_update_data L self = Inr (data\<lparr>alerts := []\<rparr>))"
  using assms parse_alert_feed_malformed[of L content]
  by (auto simp add: async_update_data_def fetch_alerts_def Let_def)

lemma update_fails_iff:
  "isl (async_update_data L self) \<longleftrightarrow> phase1_timeout L \<or> isl (fetch_weather L self)"
  by (auto simp add: async_update_data_def split: sum.splits error.splits)

lemma fetch_weather_fails_iff:
  "isl (fetch_weather L self) \<longleftrightarrow>
     (case forecast_response L self of Raises \<Rightarrow> True
      | Response st fx \<Rightarrow> st \<noteq> 200 \<or> isl (parse_forecast L self fx))"
  by (auto simp add: fetch_weather_def fetch_xml_def forecast_response_def Let_def
      split: sum.splits http_result.splits)

lemma parse_forecast_fails_iff:
  "isl (parse_forecast L self fx) \<longleftrightarrow>
     (case fromstring L fx of None \<Rightarrow> True
      | Some xroot \<Rightarrow> (case find_desc xroot ''station'' of None \<Rightarrow> True
           | Some station \<Rightarrow> findall_desc station ''forecast'' = []))"
  by (auto simp add: parse_forecast_def Let_def split: option.splits list.splits)

lemma apply_observations_skipped:
  assumes "fromstring L ox = None \<or> (fromstring L ox = Some r \<and> find_desc r ''station'' = None)"
  shows "apply_observations L d ox = d"
  using assms by (auto simp add: apply_observations_def)

text \<open>The example forecast parses in every variant of the example world.\<close>

lemma ex_forecast_parses:
  "\<not> isl (parse_forecast (ex_env_with u r) ex_self ex_forecast_body)"
proof -
  have "fromstring (ex_env_with u r) ex_forecast_body = Some ex_forecast_tree"
    unfolding ex_env_with_def ex_env_def by simp code_simp
  moreover have "find_desc ex_forecast_tree ''station'' = Some ex_station" by code_simp
  moreover have "findall_desc ex_station ''forecast'' \<noteq> []" by code_simp
  ultimately show ?thesis by (simp add: parse_forecast_fails_iff)
qed

lemma ex_fetch_weather_ok:
  assumes "u \<noteq> FORECAST_URL ''1''"
  shows "\<not> isl (fetch_weather (ex_env_with u r) ex_self)"
proof -
  have "FORECAST_URL ''1'' \<noteq> u" using assms by simp
  then have "forecast_response (ex_env_with u r) ex_self = ex_http (FORECAST_URL ''1'')"
    by (simp add: forecast_response_def ex_env_with_def ex_self_def)
  also have "\<dots> = Response 200 ex_forecast_body" by (simp add: ex_http_def)
  finally show ?thesis using ex_forecast_parses[of u r]
    by (simp add: fetch_weather_fails_iff)
qed

lemma ex_urls_differ:
  "ALERTS_URL \<noteq> FORECAST_URL ''1''" "OBSERVATION_URL ''1'' \<noteq> FORECAST_URL ''1''"
  by (simp_all add: ALERTS_URL_def FORECAST_URL_def OBSERVATION_URL_def)

lemma ex_previous: "previous_alerts ex_self = [ex_old_alert]"
  by (simp add: previous_alerts_def ex_self_def ex_old_data_def)

lemma ex_index_404:
  "async_update_data ex_env_index_404 ex_self
     = Inr ((projr (fetch_weather ex_env_index_404 ex_self))\<lparr>alerts := []\<rparr>)"
proof -
  have p: "\<not> phase1_timeout ex_env_index_404" "\<not> phase2_timeout ex_env_index_404"
    by (simp_all add: ex_env_index_404_def ex_env_with_def ex_env_def)
  have w: "fetch_weather ex_env_index_404 ex_self
      = Inr (projr (fetch_weather ex_env_index_404 ex_self))"
    unfolding ex_env_index_404_def by (rule inr_projr, rule ex_fetch_weather_ok, rule ex_urls_differ)
  have n: "http_get ex_env_index_404 ALERTS_URL = Response 404 []"
    by (simp add: ex_env_index_404_def ex_env_with_def)
  from refresh_alerts_cases [OF p(1) w, of 404 "[]"] p(2) n show ?thesis by simp
qed


lemma refresh_fails:
  assumes "phase1_timeout L \<or> forecast_response L self = Raises
      \<or> (forecast_response L self = Response st fx \<and>
            (st \<noteq> 200 \<or> fromstring L fx = None
             \<or> (fromstring L fx = Some r \<and>
                  (find_desc r ''station'' = None
                   \<or> (find_desc r ''station'' = Some s \<and> findall_desc s ''forecast'' = [])))))"
  shows "isl (async_update_data L self)"
  using assms unfolding update_fails_iff fetch_weather_fails_iff
  by (auto simp add: parse_forecast_fails_iff)

lemma refresh_forecast_only:
  assumes "\<not> phase1_timeout L" and "forecast_response L self = Response 200 fx"
    and "parse_forecast L self fx = Inr data"
    and "observation_response L self = Raises
            \<or> (observation_response L self = Response ost ox \<and>
                  (ost \<noteq> 200 \<or> fromstring L ox = None))"
  shows "\<exists>al. async_update_data L self = Inr (data\<lparr>alerts := al\<rparr>)"
proof -
  have "fetch_weather L self = Inr data"
    using assms
    by (auto simp add: fetch_weather_def fetch_xml_def forecast_response_def
        observation_response_def Let_def apply_observations_skipped)
  with assms(1) show ?thesis
    by (auto simp add: async_update_data_def split: sum.splits)
qed










lemma overlay_numeric_frame:
  "kt \<in> set obs_map \<Longrightarrow> frame_fields (overlay_numeric L station d kt) = frame_fields d"
  by (auto simp add: obs_map_def overlay_numeric_def frame_fields_def split: option.splits)

lemma foldl_overlay_frame:
  "set kts \<subseteq> set obs_map \<Longrightarrow>
     frame_fields (foldl (overlay_numeric L station) d kts) = frame_fields d"
  by (induction kts arbitrary: d) (simp_all add: overlay_numeric_frame)

lemma overlay_direction_frame: "frame_fields (overlay_direction station d) = frame_fields d"
  by (simp add: overlay_direction_def frame_fields_def Let_def split: option.splits)

lemma overlay_weather_frame: "frame_fields (overlay_weather station d) = frame_fields d"
  by (simp add: overlay_weather_def frame_fields_def Let_def)

lemma overlay_time_frame: "frame_fields (overlay_time station d) = frame_fields d"
  by (simp add: overlay_time_def frame_fields_def Let_def)

lemma apply_observations_frame:
  "frame_fields (apply_observations L d ox) = frame_fields d"
proof -
  have s: "frame_fields (d'\<lparr>feels_like := v\<rparr>) = frame_fields d'" for d' v
    by (simp add: frame_fields_def)
  show ?thesis
    by (simp add: apply_observations_def Let_def overlay_time_frame s overlay_weather_frame
        overlay_direction_frame foldl_overlay_frame split: option.splits)
qed


lemma foldl_overlay_values:
  "temperature (foldl (overlay_numeric L station) d obs_map) = overlaid (float_of L station ''T'') (temperature d)
 \<and> wind_speed (foldl (overlay_numeric L station) d obs_map) = overlaid (float_of L station ''F'') (wind_speed d)"
  by (simp add: obs_map_def overlay_numeric_def overlaid_def split: option.splits)

lemma later_overlays_keep:
  "temperature (overlay_time station d) = temperature d"
  "wind_speed (overlay_time station d) = wind_speed d"
  "feels_like (overlay_time station d) = feels_like d"
  "temperature (overlay_weather station d) = temperature d"
  "wind_speed (overlay_weather station d) = wind_speed d"
  "temperature (overlay_direction station d) = temperature d"
  "wind_speed (overlay_direction station d) = wind_speed d"
  by (simp_all add: overlay_time_def overlay_weather_def overlay_direction_def Let_def split: option.splits)

lemma apply_observations_station:
  assumes "fromstring L ox = Some r" and "find_desc r ''station'' = Some station"
  shows "temperature (apply_observations L d ox) = overlaid (float_of L station ''T'') (temperature d)
      \<and> wind_speed (apply_observations L d ox) = overlaid (float_of L station ''F'') (wind_speed d)
      \<and> feels_like (apply_observations L d ox)
          = wind_chill (temperature (apply_observations L d ox)) (wind_speed (apply_observations L d ox))"
  using assms
  by (simp add: apply_observations_def Let_def later_overlays_keep foldl_overlay_values)


lemma hourly_entry_none_iff: "hourly_entry L fc = None \<longleftrightarrow> usable_ftime L fc = None"
  by (auto simp add: hourly_entry_def usable_ftime_def truthy_def Let_def split: option.splits)

lemma hourly_entry_datetime:
  "hourly_entry L fc = Some e \<Longrightarrow> usable_ftime L fc = Some dt \<Longrightarrow> h_datetime e = isoformat_utc dt"
  by (auto simp add: hourly_entry_def usable_ftime_def truthy_def Let_def split: option.splits if_splits)

lemma parse_hourly_datetimes:
  "map h_datetime (parse_hourly L fcs) = map isoformat_utc (List.map_filter (usable_ftime L) fcs)"
proof (induction fcs)
  case Nil
  show ?case by simp
next
  case (Cons fc fcs)
  show ?case
  proof (cases "usable_ftime L fc")
    case None
    then have "hourly_entry L fc = None" by (simp add: hourly_entry_none_iff)
    with None Cons show ?thesis by simp
  next
    case (Some dt)
    then obtain e where e: "hourly_entry L fc = Some e"
      using hourly_entry_none_iff[of L fc] by (cases "hourly_entry L fc") auto
    with Some Cons hourly_entry_datetime[OF e Some] show ?thesis
      by simp
  qed
qed

lemma isoformat_utc_shape:
  "length (isoformat_utc dt) = 25 \<and> drop 19 (isoformat_utc dt) = ''+00:00''
   \<and> isoformat_utc dt ! 4 = CHR ''-'' \<and> isoformat_utc dt ! 7 = CHR ''-''
   \<and> isoformat_utc dt ! 10 = CHR ''T'' \<and> isoformat_utc dt ! 13 = CHR '':''
   \<and> isoformat_utc dt ! 16 = CHR '':''"
  by (simp add: isoformat_utc_def date_isoformat_def pad2_def pad4_def)





































lemma select_loop_some:
  "fallback \<noteq> None \<or> infos \<noteq> [] \<Longrightarrow> select_loop language ns infos fallback \<noteq> None"
  by (induction infos arbitrary: fallback) (auto simp add: Let_def)

lemma select_info_block_some:
  "info_blocks \<noteq> [] \<Longrightarrow> select_info_block self info_blocks ns \<noteq> None"
  by (simp add: select_info_block_def select_loop_some)

lemma parse_hourly_length:
  "length (parse_hourly L fcs) = length (filter (\<lambda>fc. usable_ftime L fc \<noteq> None) fcs)"
  using arg_cong[OF parse_hourly_datetimes[of L fcs], of length]
  by (simp add: List.map_filter_def)

lemma parse_hourly_shorter:
  assumes "fc \<in> set fcs" and "usable_ftime L fc = None"
  shows "length (parse_hourly L fcs) < length fcs"
proof -
  have "length (filter (\<lambda>fc. usable_ftime L fc \<noteq> None) fcs) < length fcs"
    using assms by (intro length_filter_less[of fc]) auto
  then show ?thesis by (simp add: parse_hourly_length)
qed

lemma parse_hourly_wellformed:
  assumes "e \<in> set (parse_hourly L fcs)"
  shows "\<exists>fc dt. fc \<in> set fcs \<and> usable_ftime L fc = Some dt \<and> h_datetime e = isoformat_utc dt"
proof -
  from assms have "h_datetime e \<in> set (map h_datetime (parse_hourly L fcs))" by simp
  then have "h_datetime e \<in> isoformat_utc ` set (List.map_filter (usable_ftime L) fcs)"
    by (simp add: parse_hourly_datetimes)
  then show ?thesis by (auto simp add: List.map_filter_def)
qed

lemma parse_forecast_hourly:
  assumes "parse_forecast L self fx = Inr data"
  shows "\<exists>r st. fromstring L fx = Some r \<and> find_desc r ''station'' = Some st
           \<and> forecast_hourly data = parse_hourly L (findall_desc st ''forecast'')"
  using assms
  by (auto simp add: parse_forecast_def Let_def split: option.splits list.splits)

subsection \<open>The example feeds evaluated\<close>









section \<open>Alerts when the index is not available\<close>

text \<open>
  C1, as stated, fails: with a previous alert list that is not empty and an alert index
  that answers 404, the refresh succeeds with an empty alert list, not with the previous
  one.
\<close>

theorem previous_alerts_counterexample:
  "previous_alerts ex_self = [ex_old_alert]
   \<and> http_get ex_env_index_404 ALERTS_URL = Response 404 []
   \<and> \<not> isl (async_update_data ex_env_index_404 ex_self)
   \<and> alerts (projr (async_update_data ex_env_index_404 ex_self)) = []
   \<and> alerts (projr (async_update_data ex_env_index_404 ex_self)) \<noteq> previous_alerts ex_self"
proof -
  have n: "http_get ex_env_index_404 ALERTS_URL = Response 404 []"
    by (simp add: ex_env_index_404_def ex_env_with_def)
  show ?thesis using ex_previous n by (simp add: ex_index_404)
qed

text \<open>
  C1, amended. In every refresh whose phase 1 succeeds: when the deadline of phase 2
  expires or the request of the alert index raises, the alert list of the snapshot is the
  previous cycle's alert list; when the index answers with a status other than 200, or its
  body does not parse, or parsing gives no link, the alert list of the snapshot is empty.
  In all these cases the refresh succeeds.
\<close>

theorem alert_index_degrades:
  assumes "\<not> phase1_timeout L" and "fetch_weather L self = Inr data"
  shows "(phase2_timeout L \<or> http_get L ALERTS_URL = Raises \<longrightarrow>
            async_update_data L self = Inr (data\<lparr>alerts := previous_alerts self\<rparr>))
       \<and> (\<not> phase2_timeout L \<and> http_get L ALERTS_URL = Response st content
            \<and> (st \<noteq> 200 \<or> fromstring L content = None \<or> parse_alert_feed L content = []) \<longrightarrow>
            async_update_data L self = Inr (data\<lparr>alerts := []\<rparr>))"
  using assms by (rule refresh_alerts_cases)

theorem alert_index_degrades_witness:
  "async_update_data ex_env_index_down ex_self
     = Inr ((projr (fetch_weather ex_env_index_down ex_self))\<lparr>alerts := [ex_old_alert]\<rparr>)
   \<and> async_update_data ex_env_index_404 ex_self
     = Inr ((projr (fetch_weather ex_env_index_404 ex_self))\<lparr>alerts := []\<rparr>)"
proof -
  have p1: "\<not> phase1_timeout ex_env_index_down" "\<not> phase1_timeout ex_env_index_404"
    by (simp_all add: ex_env_index_down_def ex_env_index_404_def ex_env_with_def ex_env_def)
  have w1: "fetch_weather ex_env_index_down ex_self
      = Inr (projr (fetch_weather ex_env_index_down ex_self))"
    unfolding ex_env_index_down_def by (rule inr_projr, rule ex_fetch_weather_ok, rule ex_urls_differ)
  have w2: "fetch_weather ex_env_index_404 ex_self
      = Inr (projr (fetch_weather ex_env_index_404 ex_self))"
    unfolding ex_env_index_404_def by (rule inr_projr, rule ex_fetch_weather_ok, rule ex_urls_differ)
  have d: "http_get ex_env_index_down ALERTS_URL = Raises"
    by (simp add: ex_env_index_down_def ex_env_with_def)
  have n: "\<not> phase2_timeout ex_env_index_404"
    "http_get ex_env_index_404 ALERTS_URL = Response 404 []"
    by (simp_all add: ex_env_index_404_def ex_env_with_def ex_env_def)
  from alert_index_degrades [OF p1(1) w1, of 0 "[]"] d ex_previous
  have a: "async_update_data ex_env_index_down ex_self
     = Inr ((projr (fetch_weather ex_env_index_down ex_self))\<lparr>alerts := [ex_old_alert]\<rparr>)"
    by simp
  from alert_index_degrades [OF p1(2) w2, of 404 "[]"] n
  have b: "async_update_data ex_env_index_404 ex_self
     = Inr ((projr (fetch_weather ex_env_index_404 ex_self))\<lparr>alerts := []\<rparr>)"
    by simp
  from a b show ?thesis by simp
qed

section \<open>The condition of a day\<close>



section \<open>What fails a refresh\<close>

text \<open>
  C4. A refresh fails when the deadline of phase 1 expires, the forecast request raises
  or answers with a status other than 200, the forecast body does not parse, has no
  station record, or has no forecast entry. When the forecast is valid and the
  observation request fails or its body does not parse, the refresh succeeds and its
  fields, the alerts apart, are those of the forecast alone.
\<close>

theorem forecast_required_observation_optional:
  "(phase1_timeout L \<or> forecast_response L self = Raises
      \<or> (forecast_response L self = Response st fx \<and>
            (st \<noteq> 200 \<or> fromstring L fx = None
             \<or> (fromstring L fx = Some r \<and>
                  (find_desc r ''station'' = None
                   \<or> (find_desc r ''station'' = Some s \<and> findall_desc s ''forecast'' = [])))))
     \<longrightarrow> isl (async_update_data L self))
   \<and> (\<not> phase1_timeout L \<and> forecast_response L self = Response 200 fx
        \<and> parse_forecast L self fx = Inr data
        \<and> (observation_response L self = Raises
            \<or> (observation_response L self = Response ost ox \<and>
                  (ost \<noteq> 200 \<or> fromstring L ox = None)))
     \<longrightarrow> (\<exists>al. async_update_data L self = Inr (data\<lparr>alerts := al\<rparr>)))"
  using refresh_fails[of L self st fx r s] refresh_forecast_only[of L self fx data ost ox]
  by blast

theorem forecast_required_observation_optional_witness:
  "forecast_response ex_env_no_forecast ex_self = Raises
   \<and> isl (async_update_data ex_env_no_forecast ex_self)
   \<and> observation_response ex_env_no_obs ex_self = Response 503 []
   \<and> (\<exists>al. async_update_data ex_env_no_obs ex_self
         = Inr ((projr (parse_forecast ex_env_no_obs ex_self ex_forecast_body))\<lparr>alerts := al\<rparr>))"
proof -
  have f: "forecast_response ex_env_no_forecast ex_self = Raises"
    by (simp add: forecast_response_def ex_env_no_forecast_def ex_env_with_def ex_self_def)
  have p: "\<not> phase1_timeout ex_env_no_obs"
    by (simp add: ex_env_no_obs_def ex_env_with_def ex_env_def)
  have "forecast_response ex_env_no_obs ex_self = ex_http (FORECAST_URL ''1'')"
    using ex_urls_differ(2)
    by (simp add: forecast_response_def ex_env_no_obs_def ex_env_with_def ex_self_def)
  then have r: "forecast_response ex_env_no_obs ex_self = Response 200 ex_forecast_body"
    by (simp add: ex_http_def)
  have d: "parse_forecast ex_env_no_obs ex_self ex_forecast_body
     = Inr (projr (parse_forecast ex_env_no_obs ex_self ex_forecast_body))"
    unfolding ex_env_no_obs_def by (rule inr_projr, rule ex_forecast_parses)
  have ob: "observation_response ex_env_no_obs ex_self = Response 503 []"
    by (simp add: observation_response_def ex_env_no_obs_def ex_env_with_def ex_self_def)
  from forecast_required_observation_optional
    [of ex_env_no_forecast ex_self 0 "[]" ex_forecast_tree ex_station ex_old_data 0 "[]"] f
  have a: "isl (async_update_data ex_env_no_forecast ex_self)" by simp
  from forecast_required_observation_optional
    [of ex_env_no_obs ex_self 0 ex_forecast_body ex_forecast_tree ex_station
        "projr (parse_forecast ex_env_no_obs ex_self ex_forecast_body)" 503 "[]"] p r d ob
  have b: "\<exists>al. async_update_data ex_env_no_obs ex_self
         = Inr ((projr (parse_forecast ex_env_no_obs ex_self ex_forecast_body))\<lparr>alerts := al\<rparr>)"
    by simp
  from f a ob b show ?thesis by simp
qed

section \<open>Daily summaries\<close>



section \<open>The language of an alert\<close>

text \<open>
  C6. The selection of the info block reads the language of a block with
  \<^verbatim>\<open>find(ns + "language") or find("language")\<close>. In a document in the CAP namespace the
  first \<^verbatim>\<open>find\<close> gives an element without children, which is false, and the second gives
  \<^verbatim>\<open>None\<close>: the language of every block is read as empty, and with the preferred
  language \<^verbatim>\<open>is\<close> the blocks \<open>en-US\<close>, \<open>is-IS\<close> give the block \<open>en-US\<close>. The same
  document with bare tags gives the block \<open>is-IS\<close>.
\<close>

theorem select_info_block_namespaced:
  "co_alert_language ex_self = ''is''
   \<and> findall ex_cap_ns_tree (cap_ns @ ''info'')
       = [ex_info cap_ns ''en-US'' ''Gale warning'' ''Moderate'',
          ex_info cap_ns ''is-IS'' ''Stormur'' ''Severe'']
   \<and> select_info_block ex_self (findall ex_cap_ns_tree (cap_ns @ ''info'')) cap_ns
       = Some (ex_info cap_ns ''en-US'' ''Gale warning'' ''Moderate'')
   \<and> select_info_block ex_self (findall ex_cap_bare_tree ''info'') cap_ns
       = Some (ex_info [] ''is-IS'' ''Stormur'' ''Severe'')"
  by code_simp

section \<open>Severity tiers\<close>



section \<open>The alert details fetched\<close>



section \<open>The frame of the observation overlay\<close>

text \<open>
  C9. The observation overlay leaves the station identity, the forecast time, the alerts
  and the hourly and daily sequences of every snapshot unchanged. When the observation
  body has a station record, the temperature and the wind speed are those of the
  observation where it has them, and the apparent temperature of the result is the wind
  chill of the temperature and wind speed of the result. Otherwise the snapshot is
  unchanged.
\<close>

theorem overlay_frame_and_feels_like:
  "frame_fields (apply_observations L d ox) = frame_fields d
   \<and> (fromstring L ox = Some r \<and> find_desc r ''station'' = Some station \<longrightarrow>
        temperature (apply_observations L d ox) = overlaid (float_of L station ''T'') (temperature d)
      \<and> wind_speed (apply_observations L d ox) = overlaid (float_of L station ''F'') (wind_speed d)
      \<and> feels_like (apply_observations L d ox)
          = wind_chill (temperature (apply_observations L d ox)) (wind_speed (apply_observations L d ox)))
   \<and> (fromstring L ox = None \<or> (fromstring L ox = Some r \<and> find_desc r ''station'' = None) \<longrightarrow>
        apply_observations L d ox = d)"
  using apply_observations_frame[of L d ox] apply_observations_station[of L ox r station d]
    apply_observations_skipped[of L ox r d]
  by blast

theorem overlay_frame_and_feels_like_witness:
  "fromstring ex_env ex_obs_body = Some ex_obs_tree
   \<and> find_desc ex_obs_tree ''station'' = Some ex_obs_station
   \<and> forecast_hourly (apply_observations ex_env ex_old_data ex_obs_body) = forecast_hourly ex_old_data
   \<and> forecast_daily (apply_observations ex_env ex_old_data ex_obs_body) = forecast_daily ex_old_data
   \<and> temperature ex_old_data = Some 3
   \<and> temperature (apply_observations ex_env ex_old_data ex_obs_body) = Some 12
   \<and> feels_like (apply_observations ex_env ex_old_data ex_obs_body) = None
   \<and> fromstring ex_env ''<station>'' = None
   \<and> apply_observations ex_env ex_old_data ''<station>'' = ex_old_data"
proof -
  have f: "fromstring ex_env ex_obs_body = Some ex_obs_tree" by code_simp
  have s: "find_desc ex_obs_tree ''station'' = Some ex_obs_station" by code_simp
  have v: "float_of ex_env ex_obs_station ''T'' = Some 12" "float_of ex_env ex_obs_station ''F'' = None"
    by code_simp+
  have n: "fromstring ex_env ''<station>'' = None" by code_simp
  note t = overlay_frame_and_feels_like [of ex_env ex_old_data ex_obs_body ex_obs_tree ex_obs_station]
  from t have fr: "frame_fields (apply_observations ex_env ex_old_data ex_obs_body) = frame_fields ex_old_data"
    by simp
  from t f s v have tw: "temperature (apply_observations ex_env ex_old_data ex_obs_body) = Some 12"
      "wind_speed (apply_observations ex_env ex_old_data ex_obs_body) = None"
    by (simp_all add: overlaid_def ex_old_data_def)
  from t f s have "feels_like (apply_observations ex_env ex_old_data ex_obs_body)
      = wind_chill (temperature (apply_observations ex_env ex_old_data ex_obs_body))
          (wind_speed (apply_observations ex_env ex_old_data ex_obs_body))" by simp
  with tw have fl: "feels_like (apply_observations ex_env ex_old_data ex_obs_body) = None"
    by (simp add: wind_chill_def)
  from overlay_frame_and_feels_like [of ex_env ex_old_data "''<station>''" ex_obs_tree ex_obs_station] n
  have sk: "apply_observations ex_env ex_old_data ''<station>'' = ex_old_data" by simp
  have t3: "temperature ex_old_data = Some 3" by (simp add: ex_old_data_def)
  from fr have "forecast_hourly (apply_observations ex_env ex_old_data ex_obs_body) = forecast_hourly ex_old_data"
    "forecast_daily (apply_observations ex_env ex_old_data ex_obs_body) = forecast_daily ex_old_data"
    by (simp_all add: frame_fields_def)
  with f s tw fl n sk t3 show ?thesis by simp
qed

section \<open>Timestamps of the hourly series\<close>

text \<open>
  C10. The timestamps of the hourly series are the renderings, in order, of the
  timestamps of the forecast entries whose text is there and parses; every entry of the
  series has a timestamp of the form \<^verbatim>\<open>YYYY-MM-DDTHH:MM:SS+00:00\<close>; an entry without a
  usable timestamp is left out, so that the series is then shorter than the list of
  forecast entries; the hourly series of a parsed forecast is built this way from all the
  forecast entries of the station.
\<close>

theorem hourly_timestamps:
  "map h_datetime (parse_hourly L fcs) = map isoformat_utc (List.map_filter (usable_ftime L) fcs)
   \<and> length (parse_hourly L fcs) \<le> length fcs
   \<and> (\<forall>e \<in> set (parse_hourly L fcs).
        \<exists>fc dt. fc \<in> set fcs \<and> usable_ftime L fc = Some dt \<and> h_datetime e = isoformat_utc dt
          \<and> length (h_datetime e) = 25 \<and> drop 19 (h_datetime e) = ''+00:00'')
   \<and> (\<forall>fc \<in> set fcs. usable_ftime L fc = None \<longrightarrow> length (parse_hourly L fcs) < length fcs)
   \<and> (parse_forecast L self fx = Inr data \<longrightarrow>
        (\<exists>r st. fromstring L fx = Some r \<and> find_desc r ''station'' = Some st
           \<and> forecast_hourly data = parse_hourly L (findall_desc st ''forecast'')))"
proof -
  have a: "length (parse_hourly L fcs) \<le> length fcs"
    by (simp add: parse_hourly_length)
  have b: "\<forall>e \<in> set (parse_hourly L fcs).
        \<exists>fc dt. fc \<in> set fcs \<and> usable_ftime L fc = Some dt \<and> h_datetime e = isoformat_utc dt
          \<and> length (h_datetime e) = 25 \<and> drop 19 (h_datetime e) = ''+00:00''"
  proof
    fix e assume "e \<in> set (parse_hourly L fcs)"
    from parse_hourly_wellformed[OF this] obtain fc dt where
      "fc \<in> set fcs" "usable_ftime L fc = Some dt" "h_datetime e = isoformat_utc dt" by blast
    then show "\<exists>fc dt. fc \<in> set fcs \<and> usable_ftime L fc = Some dt \<and> h_datetime e = isoformat_utc dt
          \<and> length (h_datetime e) = 25 \<and> drop 19 (h_datetime e) = ''+00:00''"
      using isoformat_utc_shape[of dt] by auto
  qed
  show ?thesis
    using parse_hourly_datetimes[of L fcs] a b parse_hourly_shorter[of _ fcs L]
      parse_forecast_hourly[of L self fx data]
    by blast
qed

theorem hourly_timestamps_witness:
  "length ex_forecasts = 4
   \<and> usable_ftime ex_env (ex_forecasts ! 3) = None
   \<and> map h_datetime (parse_hourly ex_env ex_forecasts)
       = [''2024-01-05T03:00:00+00:00'', ''2024-01-05T06:00:00+00:00'', ''2024-01-06T00:00:00+00:00'']
   \<and> length (parse_hourly ex_env ex_forecasts) < length ex_forecasts"
proof -
  note t = hourly_timestamps [of ex_env ex_forecasts ex_self ex_forecast_body ex_old_data]
  have l: "length ex_forecasts = 4" by (simp add: ex_forecasts_def)
  have u: "usable_ftime ex_env (ex_forecasts ! 3) = None" by code_simp
  have m: "List.map_filter (usable_ftime ex_env) ex_forecasts
     = [ex_dt 2024 1 5 3, ex_dt 2024 1 5 6, ex_dt 2024 1 6 0]" by code_simp
  have i: "map isoformat_utc [ex_dt 2024 1 5 3, ex_dt 2024 1 5 6, ex_dt 2024 1 6 0]
     = [''2024-01-05T03:00:00+00:00'', ''2024-01-05T06:00:00+00:00'', ''2024-01-06T00:00:00+00:00'']"
    by code_simp
  have mem: "ex_forecasts ! 3 \<in> set ex_forecasts" using l by simp
  from t m i have a: "map h_datetime (parse_hourly ex_env ex_forecasts)
       = [''2024-01-05T03:00:00+00:00'', ''2024-01-05T06:00:00+00:00'', ''2024-01-06T00:00:00+00:00'']"
    by simp
  from t mem u have b: "length (parse_hourly ex_env ex_forecasts) < length ex_forecasts" by blast
  from l u a b show ?thesis by simp
qed

end
